theory Spec2Isabelle
  imports Complex_Main
begin

section \<open>Data model\<close>

text \<open>
  The client of \<^verbatim>\<open>client.py\<close> talks to an OpenAI-style completion server. Its
  inputs are chat messages (Python dictionaries with string keys); its outputs are a prompt
  string, an HTTP request and a lazy sequence of stream events.

  A message is a Python \<^verbatim>\<open>dict\<close>. It is kept here as an association list read with
  \<open>map_of\<close>, so that the truth value of a dictionary (\<^verbatim>\<open>if system_msg:\<close>, false exactly
  for the empty dictionary) stays computable. The values of a message are strings, as in
  the message type \<^verbatim>\<open>{role, content: string}\<close>; formatting a string into an f-string
  leaves it unchanged.
\<close>

type_synonym message = "(string \<times> string) list"

text \<open>
  Bytes and text are both lists of 8-bit characters; the UTF-8 codec that relates them is
  a parameter of the environment below.
\<close>

type_synonym bytes = "char list"

text \<open>
  The values \<^verbatim>\<open>json.loads\<close> returns and \<^verbatim>\<open>requests\<close> serialises: \<^verbatim>\<open>None\<close>,
  booleans, integers, floats, strings, lists and dictionaries with string keys. A float
  is kept as the real number its literal denotes.
\<close>

datatype json =
    JNull
  | JBool bool
  | JInt int
  | JFloat real
  | JString string
  | JArray "json list"
  | JObject "(string \<times> json) list"

text \<open>Every exception the modelled code can raise, as a value.\<close>

datatype error =
    KeyError string
  | IndexError
  | TypeError
  | AttributeError string
  | UnicodeDecodeError
  | JSONDecodeError
  | RecursionError
  | ValueError
  | ConnectionError
  | Exception string

record LLMClient =
  api_base :: string
  headers :: "(string \<times> string) list"

record http_request =
  req_url :: string
  req_headers :: "(string \<times> string) list"
  req_json :: "(string \<times> json) list"
  req_stream :: bool

record http_response =
  status_code :: int
  response_text :: string
  response_lines :: "bytes list"

text \<open>
  What lies outside \<^verbatim>\<open>client.py\<close>: the HTTP transport (\<^verbatim>\<open>requests.post\<close>,
  \<^verbatim>\<open>requests.get\<close>), the UTF-8 decoder of \<^verbatim>\<open>bytes.decode\<close>, the parser
  \<^verbatim>\<open>json.loads\<close> and the clock: \<open>time_time env n\<close> is what the \<open>n\<close>-th call of
  \<^verbatim>\<open>time.time()\<close> returns. The parser returns a value or raises: \<^verbatim>\<open>JSONDecodeError\<close>
  on text that is not JSON, but also \<^verbatim>\<open>RecursionError\<close> on nesting deeper than the
  interpreter's limit and a plain \<^verbatim>\<open>ValueError\<close> on an integer literal with more digits
  than the interpreter converts.
\<close>

record env =
  requests_post :: "http_request \<Rightarrow> error + http_response"
  requests_get :: "string \<Rightarrow> error + http_response"
  decode_utf8 :: "bytes \<Rightarrow> string option"
  json_loads :: "string \<Rightarrow> error + json"
  time_time :: "nat \<Rightarrow> real"

text \<open>
  A generator run to exhaustion: the requests it sent, the events it yielded in order, and
  the exception that ended it, if one did.
\<close>

record stream_result =
  sent :: "http_request list"
  events :: "(json \<times> real) list"
  failure :: "error option"

section \<open>Python primitives\<close>

definition bind_err :: "error + 'a \<Rightarrow> ('a \<Rightarrow> error + 'b) \<Rightarrow> error + 'b" where
  "bind_err r f = (case r of Inl e \<Rightarrow> Inl e | Inr x \<Rightarrow> f x)"

text \<open>\<^verbatim>\<open>d[k]\<close> on a message: a missing key raises \<^verbatim>\<open>KeyError\<close>.\<close>

definition getitem :: "message \<Rightarrow> string \<Rightarrow> error + string" where
  "getitem d k = (case map_of d k of None \<Rightarrow> Inl (KeyError k) | Some v \<Rightarrow> Inr v)"

text \<open>Python's truth value of a decoded JSON value.\<close>

fun truthy :: "json \<Rightarrow> bool" where
  "truthy JNull = False"
| "truthy (JBool b) = b"
| "truthy (JInt n) = (n \<noteq> 0)"
| "truthy (JFloat x) = (x \<noteq> 0)"
| "truthy (JString s) = (s \<noteq> [])"
| "truthy (JArray xs) = (xs \<noteq> [])"
| "truthy (JObject kvs) = (kvs \<noteq> [])"

text \<open>
  \<^verbatim>\<open>v.get(k)\<close>: on a dictionary the value or \<^verbatim>\<open>None\<close>; every other JSON value
  has no attribute \<^verbatim>\<open>get\<close>.
\<close>

fun py_get :: "json \<Rightarrow> string \<Rightarrow> error + json" where
  "py_get (JObject kvs) k = Inr (case map_of kvs k of None \<Rightarrow> JNull | Some v \<Rightarrow> v)"
| "py_get v k = Inl (AttributeError ''get'')"

text \<open>\<^verbatim>\<open>v[k]\<close> with a string key.\<close>

fun py_getitem :: "json \<Rightarrow> string \<Rightarrow> error + json" where
  "py_getitem (JObject kvs) k =
     (case map_of kvs k of None \<Rightarrow> Inl (KeyError k) | Some v \<Rightarrow> Inr v)"
| "py_getitem v k = Inl TypeError"

text \<open>
  \<^verbatim>\<open>v[0]\<close>: the first element of a list, the first character of a string; a dictionary
  decoded from JSON has string keys only, so the key \<^verbatim>\<open>0\<close> is missing; the other values
  are not subscriptable.
\<close>

fun py_getitem0 :: "json \<Rightarrow> error + json" where
  "py_getitem0 (JArray []) = Inl IndexError"
| "py_getitem0 (JArray (x # xs)) = Inr x"
| "py_getitem0 (JString []) = Inl IndexError"
| "py_getitem0 (JString (c # cs)) = Inr (JString [c])"
| "py_getitem0 (JObject kvs) = Inl (KeyError ''0'')"
| "py_getitem0 v = Inl TypeError"

section \<open>The prompt formatter\<close>

text \<open>
  \<^verbatim>\<open>next((msg for msg in messages if msg["role"] == "system"), None)\<close>: the generator
  reads \<^verbatim>\<open>msg["role"]\<close> message by message and stops at the first system message.
\<close>

fun next_system :: "message list \<Rightarrow> error + message option" where
  "next_system [] = Inr None"
| "next_system (msg # messages) =
     (case getitem msg ''role'' of
        Inl e \<Rightarrow> Inl e
      | Inr r \<Rightarrow> if r = ''system'' then Inr (Some msg) else next_system messages)"

text \<open>\<^verbatim>\<open>[msg for msg in messages if msg["role"] == "user"]\<close>\<close>

fun user_msgs :: "message list \<Rightarrow> error + message list" where
  "user_msgs [] = Inr []"
| "user_msgs (msg # messages) =
     (case getitem msg ''role'' of
        Inl e \<Rightarrow> Inl e
      | Inr r \<Rightarrow>
          (case user_msgs messages of
             Inl e \<Rightarrow> Inl e
           | Inr us \<Rightarrow> Inr (if r = ''user'' then msg # us else us)))"

text \<open>What \<^verbatim>\<open>if system_msg: formatted += ...\<close> appends.\<close>

definition system_block :: "message option \<Rightarrow> error + string" where
  "system_block system_msg =
     (case system_msg of
        None \<Rightarrow> Inr []
      | Some m \<Rightarrow>
          if m \<noteq> [] then
            bind_err (getitem m ''content'') (\<lambda>c. Inr (''<|system|>'' @ c @ ''<|end|>''))
          else Inr [])"

text \<open>What \<^verbatim>\<open>if user_msgs: formatted += ...\<close> appends; \<^verbatim>\<open>user_msgs[-1]\<close> is the last one.\<close>

definition user_block :: "message list \<Rightarrow> error + string" where
  "user_block us =
     (if us \<noteq> [] then
        bind_err (getitem (last us) ''content'')
          (\<lambda>c. Inr (''<|user|>'' @ c @ ''<|end|><|assistant|>''))
      else Inr [])"

definition format_phi_messages :: "message list \<Rightarrow> error + string" where
  "format_phi_messages messages =
     bind_err (next_system messages) (\<lambda>system_msg.
     bind_err (system_block system_msg) (\<lambda>sb.
     bind_err (user_msgs messages) (\<lambda>us.
     bind_err (user_block us) (\<lambda>ub.
     Inr ([] @ sb @ ub)))))"

section \<open>The streaming completion client\<close>

definition init :: "string \<Rightarrow> LLMClient" where
  "init base = \<lparr>api_base = base, headers = [(''Content-Type'', ''application/json'')]\<rparr>"

definition default_model :: string where
  "default_model = ''phi-3.5-mini-instruct''"

text \<open>The dictionary \<^verbatim>\<open>data\<close> of \<^verbatim>\<open>chat_stream\<close>, in the order it is written.\<close>

definition request_data :: "string \<Rightarrow> string \<Rightarrow> (string \<times> json) list" where
  "request_data formatted_prompt model =
     [(''prompt'', JString formatted_prompt),
      (''model'', JString model),
      (''stream'', JBool True),
      (''top_p'', JFloat 0.1),
      (''temperature'', JFloat 0.3),
      (''stop'', JArray [JString ''<|endoftext|>'', JString ''<|end|>'']),
      (''max_tokens'', JInt 1024),
      (''presence_penalty'', JFloat 0.0),
      (''frequency_penalty'', JFloat 0.0)]"

text \<open>
  The body of the \<^verbatim>\<open>try\<close> block after \<^verbatim>\<open>json.loads\<close>: \<open>Inr None\<close> when the chunk
  yields nothing, \<open>Inr (Some content)\<close> when it yields \<open>content\<close>, \<open>Inl e\<close> when an
  exception other than \<^verbatim>\<open>JSONDecodeError\<close> leaves the block. The \<^verbatim>\<open>and\<close> evaluates
  its right operand only when \<^verbatim>\<open>chunk.get("choices")\<close> is true.
\<close>

definition handle_chunk :: "json \<Rightarrow> error + json option" where
  "handle_chunk chunk =
     bind_err (py_get chunk ''choices'') (\<lambda>choices.
       if truthy choices then
         bind_err (py_getitem chunk ''choices'') (\<lambda>cs.
         bind_err (py_getitem0 cs) (\<lambda>c0.
         bind_err (py_get c0 ''text'') (\<lambda>t.
           if truthy t then
             bind_err (py_getitem chunk ''choices'') (\<lambda>cs'.
             bind_err (py_getitem0 cs') (\<lambda>c0'.
             bind_err (py_getitem c0' ''text'') (\<lambda>content. Inr (Some content))))
           else Inr None)))
       else Inr None)"

text \<open>\<^verbatim>\<open>if line.startswith("data: "): line = line[6:]\<close>\<close>

definition strip_data_prefix :: "string \<Rightarrow> string" where
  "strip_data_prefix line = (if take 6 line = ''data: '' then drop 6 line else line)"

datatype line_result = Skipped | Yielded json | Raised error

text \<open>One round of the loop over \<^verbatim>\<open>response.iter_lines()\<close>.\<close>

definition process_line :: "env \<Rightarrow> bytes \<Rightarrow> line_result" where
  "process_line e raw =
     (if raw \<noteq> [] then
        (case decode_utf8 e raw of
           None \<Rightarrow> Raised UnicodeDecodeError
         | Some decoded \<Rightarrow>
             let line = strip_data_prefix decoded in
             if line = ''[DONE]'' then Skipped
             else
               (case json_loads e line of
                  Inl err \<Rightarrow> if err = JSONDecodeError then Skipped else Raised err
                | Inr chunk \<Rightarrow>
                    (case handle_chunk chunk of
                       Inl err \<Rightarrow> Raised err
                     | Inr None \<Rightarrow> Skipped
                     | Inr (Some content) \<Rightarrow> Yielded content)))
      else Skipped)"

text \<open>
  The loop itself. \<open>n\<close> counts the calls of \<^verbatim>\<open>time.time()\<close> made so far: each yield
  makes one more. An exception ends the generator; the events yielded before it stay.
\<close>

fun consume_lines :: "env \<Rightarrow> real \<Rightarrow> nat \<Rightarrow> bytes list \<Rightarrow> (json \<times> real) list \<times> error option" where
  "consume_lines e start_time n [] = ([], None)"
| "consume_lines e start_time n (raw # rest) =
     (case process_line e raw of
        Skipped \<Rightarrow> consume_lines e start_time n rest
      | Yielded content \<Rightarrow>
          (let current_time = time_time e n - start_time;
               r = consume_lines e start_time (Suc n) rest
           in ((content, current_time) # fst r, snd r))
      | Raised err \<Rightarrow> ([], Some err))"

definition chat_stream :: "env \<Rightarrow> LLMClient \<Rightarrow> message list \<Rightarrow> string \<Rightarrow> stream_result" where
  "chat_stream e self messages model =
     (case format_phi_messages messages of
        Inl err \<Rightarrow> \<lparr>sent = [], events = [], failure = Some err\<rparr>
      | Inr formatted_prompt \<Rightarrow>
          let data = request_data formatted_prompt model;
              start_time = time_time e 0;
              req = \<lparr>req_url = api_base self @ ''/completions'',
                     req_headers = headers self,
                     req_json = data,
                     req_stream = True\<rparr>
          in (case requests_post e req of
                Inl err \<Rightarrow> \<lparr>sent = [req], events = [], failure = Some err\<rparr>
              | Inr response \<Rightarrow>
                  if status_code response \<noteq> 200 then
                    \<lparr>sent = [req], events = [],
                     failure = Some (Exception (''Error: '' @ response_text response))\<rparr>
                  else
                    let r = consume_lines e start_time 1 (response_lines response)
                    in \<lparr>sent = [req], events = fst r, failure = snd r\<rparr>))"

section \<open>Model listing\<close>

text \<open>
  \<^verbatim>\<open>requests.get(f"{self.api_base}/models")\<close> followed by \<^verbatim>\<open>response.json()\<close>, which
  parses the body and raises when it is not JSON. The status code is not read.
\<close>

definition list_models :: "env \<Rightarrow> LLMClient \<Rightarrow> error + json" where
  "list_models e self =
     bind_err (requests_get e (api_base self @ ''/models'')) (\<lambda>response.
       case json_loads e (response_text response) of
         Inl err \<Rightarrow> Inl err
       | Inr v \<Rightarrow> Inr v)"

section \<open>Notions of the specification\<close>

text \<open>
  The specification speaks of messages by role, of the first system message, the last user
  message and the prompt built from them. These definitions follow its words; the theorems
  below compare them with the code.
\<close>

definition is_role :: "string \<Rightarrow> message \<Rightarrow> bool" where
  "is_role r m = (map_of m ''role'' = Some r)"

definition has_key :: "message \<Rightarrow> string \<Rightarrow> bool" where
  "has_key m k = (map_of m k \<noteq> None)"

definition first_system :: "message list \<Rightarrow> message option" where
  "first_system messages = find (is_role ''system'') messages"

definition last_user :: "message list \<Rightarrow> message option" where
  "last_user messages =
     (case filter (is_role ''user'') messages of
        [] \<Rightarrow> None
      | u # us \<Rightarrow> Some (last (u # us)))"

text \<open>
  The precondition of the formatter: every message has a role, and the two messages it
  reads the content of have one.
\<close>

definition well_formed :: "message list \<Rightarrow> bool" where
  "well_formed messages =
     (list_all (\<lambda>m. has_key m ''role'') messages \<and>
      (case first_system messages of None \<Rightarrow> True | Some m \<Rightarrow> has_key m ''content'') \<and>
      (case last_user messages of None \<Rightarrow> True | Some m \<Rightarrow> has_key m ''content''))"

definition content :: "message \<Rightarrow> string" where
  "content m = the (map_of m ''content'')"

text \<open>The prompt as the specification describes it: system block, then user block.\<close>

definition spec_prompt :: "message list \<Rightarrow> string" where
  "spec_prompt messages =
     (case first_system messages of
        None \<Rightarrow> []
      | Some m \<Rightarrow> ''<|system|>'' @ content m @ ''<|end|>'') @
     (case last_user messages of
        None \<Rightarrow> []
      | Some m \<Rightarrow> ''<|user|>'' @ content m @ ''<|end|><|assistant|>'')"

text \<open>Positions of the first and of the last element that satisfies a predicate.\<close>

fun first_index :: "('a \<Rightarrow> bool) \<Rightarrow> 'a list \<Rightarrow> nat option" where
  "first_index P [] = None"
| "first_index P (x # xs) = (if P x then Some 0 else map_option Suc (first_index P xs))"

fun last_index :: "('a \<Rightarrow> bool) \<Rightarrow> 'a list \<Rightarrow> nat option" where
  "last_index P [] = None"
| "last_index P (x # xs) =
     (case last_index P xs of
        Some j \<Rightarrow> Some (Suc j)
      | None \<Rightarrow> if P x then Some 0 else None)"

text \<open>
  The sublist, in the original order, that holds just the first system message and the
  last user message.
\<close>

definition consumed :: "message list \<Rightarrow> message list" where
  "consumed messages =
     nths messages (set_option (first_index (is_role ''system'') messages) \<union>
                    set_option (last_index (is_role ''user'') messages))"

text \<open>The sublist that holds just the last system message and the last user message.\<close>

definition last_system_last_user :: "message list \<Rightarrow> message list" where
  "last_system_last_user messages =
     nths messages (set_option (last_index (is_role ''system'') messages) \<union>
                    set_option (last_index (is_role ''user'') messages))"

text \<open>
  The field \<^verbatim>\<open>choices[0].text\<close> of a decoded chunk, when \<^verbatim>\<open>choices\<close> is a list
  whose first element is an object that has it.
\<close>

definition text_field :: "(string \<times> json) list \<Rightarrow> json option" where
  "text_field kvs =
     (case map_of kvs ''choices'' of
        Some (JArray (JObject c0 # rest)) \<Rightarrow> map_of c0 ''text''
      | _ \<Rightarrow> None)"

text \<open>
  A chunk of the shape \<^verbatim>\<open>{choices?: [{text?: ...}]}\<close>: \<^verbatim>\<open>choices\<close> is absent, or
  false as a Python value (\<^verbatim>\<open>null\<close>, an empty list, ...), or a list whose first
  element is an object.
\<close>

definition conforming :: "(string \<times> json) list \<Rightarrow> bool" where
  "conforming kvs =
     (case map_of kvs ''choices'' of
        None \<Rightarrow> True
      | Some cs \<Rightarrow>
          \<not> truthy cs \<or> (case cs of JArray (JObject c0 # rest) \<Rightarrow> True | _ \<Rightarrow> False))"

text \<open>
  The payload of a decoded line: what follows the prefix "data: " when the line starts
  with it, the whole line otherwise.
\<close>

definition has_payload :: "string \<Rightarrow> string \<Rightarrow> bool" where
  "has_payload line payload =
     (line = ''data: '' @ payload \<or> (take 6 line \<noteq> ''data: '' \<and> line = payload))"

section \<open>Example inputs\<close>

definition sysA :: message where
  "sysA = [(''role'', ''system''), (''content'', ''A'')]"

definition sysB :: message where
  "sysB = [(''role'', ''system''), (''content'', ''B'')]"

definition usr1 :: message where
  "usr1 = [(''role'', ''user''), (''content'', ''one'')]"

definition usr2 :: message where
  "usr2 = [(''role'', ''user''), (''content'', ''two'')]"

definition asst :: message where
  "asst = [(''role'', ''assistant''), (''content'', ''reply'')]"

text \<open>
  A hundred thousand opening brackets: not JSON, and nested deeper than any recursion limit
  of the interpreter, so \<^verbatim>\<open>json.loads\<close> raises \<^verbatim>\<open>RecursionError\<close> on it.
\<close>

definition deep_nesting :: string where
  "deep_nesting = replicate 100000 (CHR ''['')"

text \<open>
  What \<^verbatim>\<open>json.loads\<close> does on the payloads used below; anything else is rejected with
  \<^verbatim>\<open>JSONDecodeError\<close> here.
\<close>

definition example_loads :: "string \<Rightarrow> error + json" where
  \<open>example_loads s =
     (if s = ''{"choices":[{"text":"hi"}]}'' then
        Inr (JObject [(''choices'', JArray [JObject [(''text'', JString ''hi'')]])])
      else if s = ''{"choices":[5]}'' then
        Inr (JObject [(''choices'', JArray [JInt 5])])
      else if s = ''{"choices":[{}]}'' then
        Inr (JObject [(''choices'', JArray [JObject []])])
      else if s = ''{"error":"not found"}'' then
        Inr (JObject [(''error'', JString ''not found'')])
      else if s = deep_nesting then Inl RecursionError
      else Inl JSONDecodeError)\<close>

text \<open>A server that answers every request with the given response; ASCII lines decode to themselves.\<close>

definition example_env :: "http_response \<Rightarrow> env" where
  "example_env response =
     \<lparr>requests_post = (\<lambda>req. Inr response),
      requests_get = (\<lambda>u. Inr response),
      decode_utf8 = Some,
      json_loads = example_loads,
      time_time = real\<rparr>"

definition ok_response :: "bytes list \<Rightarrow> http_response" where
  "ok_response ls = \<lparr>status_code = 200, response_text = [], response_lines = ls\<rparr>"

definition error_response :: "int \<Rightarrow> string \<Rightarrow> http_response" where
  "error_response code body = \<lparr>status_code = code, response_text = body, response_lines = []\<rparr>"

definition local_client :: LLMClient where
  "local_client = init ''http://localhost:8080/v1''"

section \<open>The formatter on lists whose messages all have a role\<close>

lemma next_system_find:
  "list_all (\<lambda>m. has_key m ''role'') messages \<Longrightarrow>
   next_system messages = Inr (find (is_role ''system'') messages)"
  by (induction messages) (auto simp: getitem_def has_key_def is_role_def)

lemma user_msgs_filter:
  "list_all (\<lambda>m. has_key m ''role'') messages \<Longrightarrow>
   user_msgs messages = Inr (filter (is_role ''user'') messages)"
  by (induction messages) (auto simp: getitem_def has_key_def is_role_def)

lemma user_msgs_missing_role:
  "\<not> list_all (\<lambda>m. has_key m ''role'') messages \<Longrightarrow>
   user_msgs messages = Inl (KeyError ''role'')"
  by (induction messages) (auto simp: getitem_def has_key_def split: option.splits sum.splits)

lemma next_system_error:
  "next_system messages = Inl err \<Longrightarrow> err = KeyError ''role''"
  by (induction messages) (auto simp: getitem_def split: option.splits if_splits)

lemma system_block_found:
  "is_role r m \<Longrightarrow>
   system_block (Some m) =
     (case map_of m ''content'' of
        None \<Rightarrow> Inl (KeyError ''content'')
      | Some c \<Rightarrow> Inr (''<|system|>'' @ c @ ''<|end|>''))"
  by (auto simp: system_block_def bind_err_def getitem_def is_role_def split: option.splits)

lemma user_block_cases:
  "user_block us =
     (case us of
        [] \<Rightarrow> Inr []
      | u # us' \<Rightarrow>
          (case map_of (last (u # us')) ''content'' of
             None \<Rightarrow> Inl (KeyError ''content'')
           | Some c \<Rightarrow> Inr (''<|user|>'' @ c @ ''<|end|><|assistant|>'')))"
  by (auto simp: user_block_def bind_err_def getitem_def split: option.splits list.splits)

text \<open>
  Once every message has a role, the result depends on the first system message and the
  last user message alone.
\<close>

lemma format_with_roles:
  assumes "list_all (\<lambda>m. has_key m ''role'') messages"
  shows "format_phi_messages messages =
     (case first_system messages of
        None \<Rightarrow>
          (case last_user messages of
             None \<Rightarrow> Inr []
           | Some u \<Rightarrow>
               (case map_of u ''content'' of
                  None \<Rightarrow> Inl (KeyError ''content'')
                | Some c \<Rightarrow> Inr (''<|user|>'' @ c @ ''<|end|><|assistant|>'')))
      | Some s \<Rightarrow>
          (case map_of s ''content'' of
             None \<Rightarrow> Inl (KeyError ''content'')
           | Some sc \<Rightarrow>
               (case last_user messages of
                  None \<Rightarrow> Inr (''<|system|>'' @ sc @ ''<|end|>'')
                | Some u \<Rightarrow>
                    (case map_of u ''content'' of
                       None \<Rightarrow> Inl (KeyError ''content'')
                     | Some c \<Rightarrow>
                         Inr (''<|system|>'' @ sc @ ''<|end|>'' @
                              ''<|user|>'' @ c @ ''<|end|><|assistant|>'')))))"
proof (cases "find (is_role ''system'') messages")
  case None
  then show ?thesis
    using assms
    by (simp add: format_phi_messages_def next_system_find user_msgs_filter bind_err_def
        first_system_def last_user_def system_block_def user_block_cases
        split: list.splits option.splits)
next
  case (Some s)
  then have "is_role ''system'' s" by (auto simp: find_Some_iff)
  then have sb: "system_block (Some s) =
     (case map_of s ''content'' of
        None \<Rightarrow> Inl (KeyError ''content'')
      | Some c \<Rightarrow> Inr (''<|system|>'' @ c @ ''<|end|>''))"
    by (rule system_block_found)
  show ?thesis
    using assms Some
    by (simp add: format_phi_messages_def next_system_find user_msgs_filter bind_err_def
        first_system_def last_user_def sb user_block_cases
        split: list.splits option.splits)
qed

text \<open>
  Claim C1. For every list of messages (each with a role, and with a content where the
  formatter reads it), the output is the system block \<^verbatim>\<open><|system|>{content}<|end|>\<close> of
  the first message with role "system" (nothing if there is none) followed by the user block
  \<^verbatim>\<open><|user|>{content}<|end|><|assistant|>\<close> of the last message with role "user" (nothing,
  not even the assistant marker, if there is none), in this order wherever the messages
  stand in the list.
\<close>

theorem format_fixed_order:
  assumes "well_formed messages"
  shows "format_phi_messages messages = Inr (spec_prompt messages)"
proof -
  from assms have r: "list_all (\<lambda>m. has_key m ''role'') messages"
    by (simp add: well_formed_def)
  from assms show ?thesis
    unfolding format_with_roles [OF r]
    by (auto simp: well_formed_def spec_prompt_def content_def has_key_def split: option.splits)
qed

text \<open>The instance of the claim: a system message "S" and a user message "U".\<close>

theorem format_fixed_order_witness:
  "well_formed [[(''role'', ''system''), (''content'', ''S'')],
                [(''role'', ''user''), (''content'', ''U'')]] \<and>
   format_phi_messages [[(''role'', ''system''), (''content'', ''S'')],
                        [(''role'', ''user''), (''content'', ''U'')]]
     = Inr ''<|system|>S<|end|><|user|>U<|end|><|assistant|>''"
  using format_fixed_order [of "[[(''role'', ''system''), (''content'', ''S'')],
                                 [(''role'', ''user''), (''content'', ''U'')]]"]
  by (simp add: well_formed_def first_system_def last_user_def is_role_def has_key_def
      spec_prompt_def content_def)

text \<open>
  Claim C9. On the empty list of messages the formatter raises nothing and returns the
  empty string.
\<close>

theorem format_empty: "format_phi_messages [] = Inr []"
  by (simp add: format_phi_messages_def bind_err_def system_block_def user_block_def)

text \<open>
  Claim C10. The formatter returns a string exactly when every message has a "role" key
  and the first system message and the last user message, when they exist, have a
  "content" key; on every other input it raises \<^verbatim>\<open>KeyError\<close>, as on a list with a
  message that has no "role".
\<close>

theorem format_total_iff:
  "((\<exists>s. format_phi_messages messages = Inr s) \<longleftrightarrow> well_formed messages) \<and>
   (\<not> well_formed messages \<longrightarrow>
      format_phi_messages messages = Inl (KeyError ''role'') \<or>
      format_phi_messages messages = Inl (KeyError ''content''))"
proof (cases "list_all (\<lambda>m. has_key m ''role'') messages")
  case True
  show ?thesis
    unfolding format_with_roles [OF True]
    using True
    by (auto simp: well_formed_def has_key_def split: option.splits)
next
  case False
  then have u: "user_msgs messages = Inl (KeyError ''role'')"
    by (rule user_msgs_missing_role)
  have nw: "\<not> well_formed messages" using False by (simp add: well_formed_def)
  have "format_phi_messages messages = Inl (KeyError ''role'') \<or>
      format_phi_messages messages = Inl (KeyError ''content'')"
  proof (cases "next_system messages")
    case (Inl err)
    then show ?thesis
      using next_system_error [OF Inl] by (simp add: format_phi_messages_def bind_err_def)
  next
    case (Inr sm)
    show ?thesis
    proof (cases "system_block sm")
      case (Inl err)
      then have "err = KeyError ''content''"
        by (auto simp: system_block_def bind_err_def getitem_def split: option.splits if_splits)
      with Inl Inr show ?thesis by (simp add: format_phi_messages_def bind_err_def)
    next
      case sb: (Inr b)
      with Inr u show ?thesis by (simp add: format_phi_messages_def bind_err_def)
    qed
  qed
  with nw show ?thesis by auto
qed

theorem format_total_iff_witness:
  "\<not> well_formed [[(''content'', ''hi'')]] \<and>
   format_phi_messages [[(''content'', ''hi'')]] = Inl (KeyError ''role'')"
  using format_total_iff [of "[[(''content'', ''hi'')]]"]
  by (simp add: well_formed_def has_key_def format_phi_messages_def bind_err_def getitem_def)

section \<open>Which messages the formatter consumes\<close>

lemma first_index_None:
  "first_index P xs = None \<Longrightarrow> find P (nths xs I) = None \<and> find P xs = None"
  by (induction xs arbitrary: I) (auto simp: nths_Cons split: if_splits)

lemma find_nths:
  "first_index P xs = Some i \<Longrightarrow> i \<in> I \<Longrightarrow> find P (nths xs I) = find P xs"
proof (induction xs arbitrary: i I)
  case Nil
  then show ?case by simp
next
  case (Cons x xs)
  show ?case
  proof (cases "P x")
    case True
    with Cons.prems show ?thesis by (simp add: nths_Cons)
  next
    case False
    with Cons.prems obtain j where j: "first_index P xs = Some j" "i = Suc j" by auto
    with Cons.prems have "j \<in> {k. Suc k \<in> I}" by simp
    from Cons.IH [OF j(1) this] False show ?thesis by (simp add: nths_Cons)
  qed
qed

lemma last_index_None: "last_index P xs = None \<Longrightarrow> filter P xs = []"
  by (induction xs) (auto split: option.splits if_splits)

lemma filter_nths_empty: "filter P xs = [] \<Longrightarrow> filter P (nths xs I) = []"
  by (auto simp: filter_empty_conv dest: in_set_nthsD)

lemma last_index_Some_filter: "last_index P xs = Some j \<Longrightarrow> filter P xs \<noteq> []"
  by (induction xs arbitrary: j) (auto split: option.splits if_splits)

lemma last_filter_nths:
  "last_index P xs = Some j \<Longrightarrow> j \<in> I \<Longrightarrow>
   filter P (nths xs I) \<noteq> [] \<and> last (filter P (nths xs I)) = last (filter P xs)"
proof (induction xs arbitrary: j I)
  case Nil
  then show ?case by simp
next
  case (Cons x xs)
  show ?case
  proof (cases "last_index P xs")
    case None
    with Cons.prems have px: "P x" "j = 0" by (auto split: if_splits)
    from None have e: "filter P xs = []" by (rule last_index_None)
    then have "filter P (nths xs {k. Suc k \<in> I}) = []" by (rule filter_nths_empty)
    with px e Cons.prems show ?thesis by (simp add: nths_Cons)
  next
    case (Some k)
    with Cons.prems have "k \<in> {k. Suc k \<in> I}" by auto
    from Cons.IH [OF Some this] last_index_Some_filter [OF Some]
    show ?thesis by (simp add: nths_Cons)
  qed
qed

text \<open>Dropping messages around the first system message leaves it the first one.\<close>

lemma first_system_nths:
  "set_option (first_index (is_role ''system'') messages) \<subseteq> I \<Longrightarrow>
   first_system (nths messages I) = first_system messages"
  unfolding first_system_def
  by (cases "first_index (is_role ''system'') messages")
    (auto simp: first_index_None find_nths)

lemma last_user_nths:
  "set_option (last_index (is_role ''user'') messages) \<subseteq> I \<Longrightarrow>
   last_user (nths messages I) = last_user messages"
proof (cases "last_index (is_role ''user'') messages")
  case None
  then have "filter (is_role ''user'') messages = []" by (rule last_index_None)
  then show ?thesis by (simp add: last_user_def filter_nths_empty)
next
  case (Some j)
  assume "set_option (last_index (is_role ''user'') messages) \<subseteq> I"
  with Some have "j \<in> I" by simp
  from last_filter_nths [OF Some this] last_index_Some_filter [OF Some]
  show ?thesis by (auto simp: last_user_def split: list.splits)
qed

lemma roles_nths:
  "list_all (\<lambda>m. has_key m ''role'') messages \<Longrightarrow>
   list_all (\<lambda>m. has_key m ''role'') (nths messages I)"
  by (auto simp: list_all_iff dest: in_set_nthsD)

text \<open>
  Claim C2, as amended. For every list of messages that all have a role, the formatter's
  result on the full list equals its result on the sublist that holds just the first
  system message (if any) and the last user message (if any): every other message is
  ignored.
\<close>

theorem format_consumed:
  assumes "list_all (\<lambda>m. has_key m ''role'') messages"
  shows "format_phi_messages (consumed messages) = format_phi_messages messages"
proof -
  have r: "list_all (\<lambda>m. has_key m ''role'') (consumed messages)"
    unfolding consumed_def using assms by (rule roles_nths)
  have s: "first_system (consumed messages) = first_system messages"
    unfolding consumed_def by (rule first_system_nths) simp
  have u: "last_user (consumed messages) = last_user messages"
    unfolding consumed_def by (rule last_user_nths) simp
  show ?thesis
    unfolding format_with_roles [OF r] format_with_roles [OF assms] s u ..
qed

theorem format_consumed_witness:
  "list_all (\<lambda>m. has_key m ''role'') [usr1, sysA, asst, sysB, usr2] \<and>
   consumed [usr1, sysA, asst, sysB, usr2] = [sysA, usr2] \<and>
   format_phi_messages [sysA, usr2] = format_phi_messages [usr1, sysA, asst, sysB, usr2]"
  using format_consumed [of "[usr1, sysA, asst, sysB, usr2]"]
  by (simp add: consumed_def is_role_def has_key_def nths_Cons
      sysA_def sysB_def usr1_def usr2_def asst_def)

text \<open>
  Claim C2 as it is written speaks of the last system message. With two system messages
  the formatter takes the first, so its result on the full list differs from its result on
  the sublist that holds the last one.
\<close>

theorem last_system_counterexample:
  "last_system_last_user [sysA, sysB] = [sysB] \<and>
   format_phi_messages [sysA, sysB] = Inr ''<|system|>A<|end|>'' \<and>
   format_phi_messages (last_system_last_user [sysA, sysB]) = Inr ''<|system|>B<|end|>'' \<and>
   format_phi_messages [sysA, sysB] \<noteq> format_phi_messages (last_system_last_user [sysA, sysB])"
  by (simp add: last_system_last_user_def is_role_def nths_Cons sysA_def sysB_def
      format_phi_messages_def bind_err_def getitem_def system_block_def user_block_def)

section \<open>The request and the status check\<close>

lemma sent_chat_stream:
  assumes "req \<in> set (sent (chat_stream e self messages model))"
  shows "\<exists>prompt. format_phi_messages messages = Inr prompt \<and>
           req = \<lparr>req_url = api_base self @ ''/completions'', req_headers = headers self,
                  req_json = request_data prompt model, req_stream = True\<rparr>"
  using assms
  by (auto simp: chat_stream_def Let_def split: sum.splits if_splits)

lemma format_usr1: "format_phi_messages [usr1] = Inr ''<|user|>one<|end|><|assistant|>''"
  by (simp add: usr1_def format_phi_messages_def bind_err_def getitem_def system_block_def
      user_block_def)

text \<open>
  Claim C3. When the server answers the request of a \<^verbatim>\<open>chat_stream\<close> call with a status
  other than 200, the stream fails before it yields any event, and the message of the
  failure is "Error: " followed by the raw text of the response body.
\<close>

theorem non_200_fails_before_events:
  assumes "req \<in> set (sent (chat_stream e self messages model))"
    and "requests_post e req = Inr response"
    and "status_code response \<noteq> 200"
  shows "events (chat_stream e self messages model) = [] \<and>
         failure (chat_stream e self messages model) =
           Some (Exception (''Error: '' @ response_text response))"
proof -
  from sent_chat_stream [OF assms(1)] obtain prompt where
    p: "format_phi_messages messages = Inr prompt" and
    r: "req = \<lparr>req_url = api_base self @ ''/completions'', req_headers = headers self,
                req_json = request_data prompt model, req_stream = True\<rparr>"
    by blast
  from assms(2,3) show ?thesis
    unfolding r by (simp add: chat_stream_def p Let_def)
qed

theorem non_200_fails_before_events_witness:
  "events (chat_stream (example_env (error_response 500 ''boom'')) local_client [usr1]
     default_model) = [] \<and>
   failure (chat_stream (example_env (error_response 500 ''boom'')) local_client [usr1]
     default_model) = Some (Exception ''Error: boom'')"
proof -
  let ?e = "example_env (error_response 500 ''boom'')"
  let ?req = "\<lparr>req_url = api_base local_client @ ''/completions'',
                 req_headers = headers local_client,
                 req_json = request_data ''<|user|>one<|end|><|assistant|>'' default_model,
                 req_stream = True\<rparr>"
  have s: "?req \<in> set (sent (chat_stream ?e local_client [usr1] default_model))"
    by (simp add: chat_stream_def format_usr1 Let_def example_env_def error_response_def)
  have p: "requests_post ?e ?req = Inr (error_response 500 ''boom'')"
    by (simp add: example_env_def)
  have n: "status_code (error_response 500 ''boom'') \<noteq> 200"
    by (simp add: error_response_def)
  from non_200_fails_before_events [OF s p n] show ?thesis
    by (simp add: error_response_def)
qed

text \<open>
  Claim C7. The body of every request a \<^verbatim>\<open>chat_stream\<close> call sends to the completions
  endpoint has exactly these fields: prompt (the formatted prompt), model (the model
  string), stream true, top_p 0.1, temperature 0.3, stop ["<|endoftext|>", "<|end|>"],
  max_tokens 1024, presence_penalty 0.0 and frequency_penalty 0.0.
\<close>

theorem request_body_fields:
  assumes "req \<in> set (sent (chat_stream e self messages model))"
  shows "\<exists>prompt. format_phi_messages messages = Inr prompt \<and>
           req_url req = api_base self @ ''/completions'' \<and>
           req_json req =
             [(''prompt'', JString prompt),
              (''model'', JString model),
              (''stream'', JBool True),
              (''top_p'', JFloat 0.1),
              (''temperature'', JFloat 0.3),
              (''stop'', JArray [JString ''<|endoftext|>'', JString ''<|end|>'']),
              (''max_tokens'', JInt 1024),
              (''presence_penalty'', JFloat 0.0),
              (''frequency_penalty'', JFloat 0.0)]"
  using sent_chat_stream [OF assms] by (auto simp: request_data_def)

theorem request_body_fields_witness:
  "map req_url (sent (chat_stream (example_env (ok_response [])) local_client [usr1] ''phi'')) =
     [''http://localhost:8080/v1/completions''] \<and>
   map req_json (sent (chat_stream (example_env (ok_response [])) local_client [usr1] ''phi'')) =
     [[(''prompt'', JString ''<|user|>one<|end|><|assistant|>''),
       (''model'', JString ''phi''),
       (''stream'', JBool True),
       (''top_p'', JFloat 0.1),
       (''temperature'', JFloat 0.3),
       (''stop'', JArray [JString ''<|endoftext|>'', JString ''<|end|>'']),
       (''max_tokens'', JInt 1024),
       (''presence_penalty'', JFloat 0.0),
       (''frequency_penalty'', JFloat 0.0)]]"
proof -
  let ?s = "chat_stream (example_env (ok_response [])) local_client [usr1] ''phi''"
  let ?req = "\<lparr>req_url = api_base local_client @ ''/completions'',
                 req_headers = headers local_client,
                 req_json = request_data ''<|user|>one<|end|><|assistant|>'' ''phi'',
                 req_stream = True\<rparr>"
  have s: "sent ?s = [?req]"
    by (simp add: chat_stream_def format_usr1 Let_def example_env_def ok_response_def)
  then have "?req \<in> set (sent ?s)" by simp
  from request_body_fields [OF this] show ?thesis
    unfolding s by (simp add: format_usr1 local_client_def init_def)
qed

section \<open>The loop over the lines of the stream\<close>

text \<open>A line the loop skips can be removed from the stream without changing its outcome.\<close>

lemma consume_lines_skip:
  "process_line e raw = Skipped \<Longrightarrow>
   consume_lines e st n (pre @ raw # post) = consume_lines e st n (pre @ post)"
  by (induction pre arbitrary: n) (auto split: line_result.splits)

lemma strip_data_prefix_payload:
  "has_payload decoded payload \<Longrightarrow> strip_data_prefix decoded = payload"
  by (auto simp: has_payload_def strip_data_prefix_def)

lemma length_deep_nesting: "length deep_nesting = 100000"
  by (simp add: deep_nesting_def)

lemma short_not_deep_nesting: "length s < 100000 \<Longrightarrow> (s = deep_nesting) = False"
  using length_deep_nesting by auto

lemma deep_nesting_not_short: "length s < 100000 \<Longrightarrow> (deep_nesting = s) = False"
  using length_deep_nesting by auto

lemmas example_simps =
  process_line_def example_env_def strip_data_prefix_def example_loads_def
  handle_chunk_def bind_err_def ok_response_def short_not_deep_nesting

text \<open>
  Claim C4, as amended. A line whose payload (what is left once the optional "data: "
  prefix is stripped) is rejected by \<^verbatim>\<open>json.loads\<close> with \<^verbatim>\<open>JSONDecodeError\<close> is skipped
  silently: it raises nothing and yields no event, and the lines before and after it yield
  what they yield without it.
\<close>

theorem malformed_json_skipped:
  assumes "decode_utf8 e raw = Some decoded"
    and "has_payload decoded payload"
    and "json_loads e payload = Inl JSONDecodeError"
  shows "process_line e raw = Skipped \<and>
         consume_lines e st n (pre @ raw # post) = consume_lines e st n (pre @ post)"
proof -
  from assms(2) have "strip_data_prefix decoded = payload"
    by (rule strip_data_prefix_payload)
  with assms(1,3) have "process_line e raw = Skipped"
    by (simp add: process_line_def Let_def)
  then show ?thesis by (simp add: consume_lines_skip)
qed

theorem malformed_json_skipped_witness:
  \<open>strip_data_prefix ''data: {"choices":[{"te'' = ''{"choices":[{"te'' \<and>
   json_loads (example_env (ok_response [])) ''{"choices":[{"te'' = Inl JSONDecodeError \<and>
   process_line (example_env (ok_response [])) ''data: {"choices":[{"te'' = Skipped \<and>
   consume_lines (example_env (ok_response [])) 0 1
     [''data: {"choices":[{"te'', ''data: {"choices":[{"text":"hi"}]}''] =
   ([(JString ''hi'', 1)], None)\<close>
proof -
  let ?e = "example_env (ok_response [])"
  have d: \<open>decode_utf8 ?e ''data: {"choices":[{"te'' = Some ''data: {"choices":[{"te''\<close>
    by (simp add: example_env_def)
  have h: \<open>has_payload ''data: {"choices":[{"te'' ''{"choices":[{"te''\<close>
    by (simp add: has_payload_def)
  have j: \<open>json_loads ?e ''{"choices":[{"te'' = Inl JSONDecodeError\<close>
    by (simp add: example_env_def example_loads_def short_not_deep_nesting)
  from malformed_json_skipped [OF d h j, of 0 1 "[]" \<open>[''data: {"choices":[{"text":"hi"}]}'']\<close>]
  show ?thesis
    using j by (simp add: example_simps)
qed

text \<open>
  Claim C4 as it is written covers every payload that fails to parse. On a payload of
  deeply nested brackets \<^verbatim>\<open>json.loads\<close> fails with \<^verbatim>\<open>RecursionError\<close>, which
  \<^verbatim>\<open>except json.JSONDecodeError\<close> does not catch: the line is not skipped, the exception
  leaves the generator, and the valid line after it yields no event.
\<close>

theorem deep_nesting_counterexample:
  \<open>strip_data_prefix (''data: '' @ deep_nesting) = deep_nesting \<and>
   json_loads (example_env (ok_response [])) deep_nesting = Inl RecursionError \<and>
   process_line (example_env (ok_response [])) (''data: '' @ deep_nesting) =
     Raised RecursionError \<and>
   consume_lines (example_env (ok_response [])) 0 1
     [''data: '' @ deep_nesting, ''data: {"choices":[{"text":"hi"}]}''] =
     ([], Some RecursionError)\<close>
proof -
  let ?e = "example_env (ok_response [])"
  have h: "has_payload (''data: '' @ deep_nesting) deep_nesting"
    by (simp add: has_payload_def)
  have j: "json_loads ?e deep_nesting = Inl RecursionError"
    by (simp add: example_env_def example_loads_def deep_nesting_not_short)
  have s: "strip_data_prefix (''data: '' @ deep_nesting) = deep_nesting"
    using h by (rule strip_data_prefix_payload)
  have p: "process_line ?e (''data: '' @ deep_nesting) = Raised RecursionError"
    using j s by (simp add: process_line_def deep_nesting_not_short example_env_def)
  from s j p show ?thesis by simp
qed

text \<open>
  Claim C6. The loop strips an optional "data: " prefix from the line: what it goes on
  with is the payload. When the payload is the literal "[DONE]" the line is skipped and
  yields no event. The line "data: [DONE]" is the instance that follows.
\<close>

theorem done_sentinel_skipped:
  assumes "decode_utf8 e raw = Some decoded"
    and "has_payload decoded payload"
  shows "strip_data_prefix decoded = payload \<and>
         (payload = ''[DONE]'' \<longrightarrow>
            process_line e raw = Skipped \<and>
            consume_lines e st n (pre @ raw # post) = consume_lines e st n (pre @ post))"
proof -
  from assms(2) have s: "strip_data_prefix decoded = payload"
    by (rule strip_data_prefix_payload)
  have "process_line e raw = Skipped" if "payload = ''[DONE]''"
    using assms(1) s that by (simp add: process_line_def Let_def)
  with s show ?thesis by (simp add: consume_lines_skip)
qed

theorem done_sentinel_skipped_witness:
  \<open>strip_data_prefix ''data: [DONE]'' = ''[DONE]'' \<and>
   process_line (example_env (ok_response [])) ''data: [DONE]'' = Skipped \<and>
   consume_lines (example_env (ok_response [])) 0 1
     [''data: [DONE]'', ''data: {"choices":[{"text":"hi"}]}''] = ([(JString ''hi'', 1)], None)\<close>
proof -
  let ?e = "example_env (ok_response [])"
  have d: \<open>decode_utf8 ?e ''data: [DONE]'' = Some ''data: [DONE]''\<close>
    by (simp add: example_env_def)
  have h: \<open>has_payload ''data: [DONE]'' ''[DONE]''\<close>
    by (simp add: has_payload_def)
  from done_sentinel_skipped [OF d h, of 0 1 "[]" \<open>[''data: {"choices":[{"text":"hi"}]}'']\<close>]
  show ?thesis
    by (simp add: example_simps)
qed

section \<open>Decoded chunks\<close>

lemma handle_chunk_object:
  "handle_chunk (JObject kvs) =
     (case map_of kvs ''choices'' of
        None \<Rightarrow> Inr None
      | Some cs \<Rightarrow>
          if truthy cs then
            bind_err (py_getitem0 cs) (\<lambda>c0.
            bind_err (py_get c0 ''text'') (\<lambda>t.
              if truthy t then
                bind_err (py_getitem c0 ''text'') (\<lambda>content. Inr (Some content))
              else Inr None))
          else Inr None)"
  by (simp add: handle_chunk_def bind_err_def split: option.splits sum.splits)

lemma handle_chunk_conforming:
  assumes "conforming kvs"
  shows "handle_chunk (JObject kvs) =
     (case text_field kvs of
        None \<Rightarrow> Inr None
      | Some t \<Rightarrow> if truthy t then Inr (Some t) else Inr None)"
proof (cases "map_of kvs ''choices''")
  case None
  then show ?thesis by (simp add: handle_chunk_object text_field_def)
next
  case (Some cs)
  show ?thesis
  proof (cases "truthy cs")
    case False
    with Some show ?thesis
      by (cases cs) (auto simp: handle_chunk_object text_field_def split: list.splits json.splits)
  next
    case True
    with assms Some obtain c0 rest where cs: "cs = JArray (JObject c0 # rest)"
      by (auto simp: conforming_def split: json.splits list.splits)
    with Some show ?thesis
      by (simp add: handle_chunk_object text_field_def bind_err_def split: option.splits)
  qed
qed

text \<open>
  Claim C5, as amended. For a line whose payload parses to a JSON object in which
  \<^verbatim>\<open>choices\<close> is absent, or false as a Python value, or a list whose first element is an
  object: when \<^verbatim>\<open>choices[0].text\<close> is present and not empty, the line yields exactly one
  event, which carries that text and the time elapsed since the start; when the
  \<^verbatim>\<open>choices\<close> field or the \<^verbatim>\<open>text\<close> field is absent, or the text is empty, the line is
  dropped silently and the stream goes on.
\<close>

theorem chunk_text_yield_or_drop:
  assumes "raw \<noteq> []"
    and "decode_utf8 e raw = Some decoded"
    and "strip_data_prefix decoded \<noteq> ''[DONE]''"
    and "json_loads e (strip_data_prefix decoded) = Inr (JObject kvs)"
    and "conforming kvs"
  shows "(case text_field kvs of
            Some t \<Rightarrow>
              if truthy t then
                process_line e raw = Yielded t \<and>
                consume_lines e st n (raw # rest) =
                  ((t, time_time e n - st) # fst (consume_lines e st (Suc n) rest),
                   snd (consume_lines e st (Suc n) rest))
              else
                process_line e raw = Skipped \<and>
                consume_lines e st n (raw # rest) = consume_lines e st n rest
          | None \<Rightarrow>
              process_line e raw = Skipped \<and>
              consume_lines e st n (raw # rest) = consume_lines e st n rest)"
proof -
  have "process_line e raw =
     (case text_field kvs of
        None \<Rightarrow> Skipped
      | Some t \<Rightarrow> if truthy t then Yielded t else Skipped)"
    using assms(1-4)
    by (simp add: process_line_def Let_def handle_chunk_conforming [OF assms(5)]
        split: option.splits)
  then show ?thesis
    by (simp add: Let_def split: option.splits)
qed

theorem chunk_text_yield_or_drop_witness:
  \<open>process_line (example_env (ok_response [])) ''data: {"choices":[{"text":"hi"}]}'' =
     Yielded (JString ''hi'') \<and>
   consume_lines (example_env (ok_response [])) 0 1
     [''data: {"choices":[{"text":"hi"}]}'', ''data: [DONE]''] = ([(JString ''hi'', 1)], None) \<and>
   process_line (example_env (ok_response [])) ''data: {"choices":[{}]}'' = Skipped \<and>
   consume_lines (example_env (ok_response [])) 0 1
     [''data: {"choices":[{}]}'', ''data: {"choices":[{"text":"hi"}]}''] =
     ([(JString ''hi'', 1)], None)\<close>
proof -
  let ?e = "example_env (ok_response [])"
  let ?hi = \<open>''data: {"choices":[{"text":"hi"}]}''\<close>
  let ?no = \<open>''data: {"choices":[{}]}''\<close>
  have d1: "decode_utf8 ?e ?hi = Some ?hi" and d2: "decode_utf8 ?e ?no = Some ?no"
    by (simp_all add: example_env_def)
  have n1: "strip_data_prefix ?hi \<noteq> ''[DONE]''" and n2: "strip_data_prefix ?no \<noteq> ''[DONE]''"
    by (simp_all add: strip_data_prefix_def)
  have j1: "json_loads ?e (strip_data_prefix ?hi) =
      Inr (JObject [(''choices'', JArray [JObject [(''text'', JString ''hi'')]])])"
    by (simp add: example_env_def strip_data_prefix_def example_loads_def)
  have j2: "json_loads ?e (strip_data_prefix ?no) =
      Inr (JObject [(''choices'', JArray [JObject []])])"
    by (simp add: example_env_def strip_data_prefix_def example_loads_def)
  have c1: "conforming [(''choices'', JArray [JObject [(''text'', JString ''hi'')]])]"
    and c2: "conforming [(''choices'', JArray [JObject []])]"
    by (simp_all add: conforming_def)
  have r1: "?hi \<noteq> []" and r2: "?no \<noteq> []" by simp_all
  from chunk_text_yield_or_drop [OF r1 d1 n1 j1 c1, of 0 1 "[''data: [DONE]'']"]
    chunk_text_yield_or_drop [OF r2 d2 n2 j2 c2, of 0 1 "[?hi]"]
  show ?thesis
    by (simp add: text_field_def example_simps)
qed

text \<open>
  Claim C5 as it is written covers every JSON object. The payload \<^verbatim>\<open>{"choices":[5]}\<close>
  parses to an object without a text field, yet it is not dropped: \<^verbatim>\<open>(5).get\<close> raises
  \<^verbatim>\<open>AttributeError\<close>, which \<^verbatim>\<open>except json.JSONDecodeError\<close> does not catch, and the
  valid line after it yields no event.
\<close>

theorem chunk_without_text_counterexample:
  \<open>json_loads (example_env (ok_response [])) (strip_data_prefix ''data: {"choices":[5]}'') =
     Inr (JObject [(''choices'', JArray [JInt 5])]) \<and>
   text_field [(''choices'', JArray [JInt 5])] = None \<and>
   process_line (example_env (ok_response [])) ''data: {"choices":[5]}'' =
     Raised (AttributeError ''get'') \<and>
   consume_lines (example_env (ok_response [])) 0 1
     [''data: {"choices":[5]}'', ''data: {"choices":[{"text":"hi"}]}''] =
     ([], Some (AttributeError ''get''))\<close>
  by (simp add: text_field_def example_simps)

section \<open>Model listing and the status code\<close>

text \<open>
  Claim C8 says that \<^verbatim>\<open>list_models\<close> fails when the response has a status other than
  200. The code never reads the status: on a 404 response whose body is JSON, the call
  returns the decoded error body as its value.
\<close>

theorem list_models_returns_error_body:
  \<open>status_code (error_response 404 ''{"error":"not found"}'') \<noteq> 200 \<and>
   list_models (example_env (error_response 404 ''{"error":"not found"}'')) local_client =
     Inr (JObject [(''error'', JString ''not found'')])\<close>
  by (simp add: list_models_def bind_err_def example_env_def error_response_def example_loads_def)

end
